theory Spec2Isabelle
  imports Complex_Main "HOL-Library.Monad_Syntax" "HOL-Library.Signed_Division"
begin

section \<open>Attitude conversions of \<^verbatim>\<open>mavlink_conversions.h\<close>\<close>

text \<open>
  The header converts between quaternions, direction cosine matrices (DCM) and Euler
  angles. The embedding follows the C text function by function.

  \<^bold>\<open>Arithmetic.\<close> The C types \<^verbatim>\<open>float\<close> and \<^verbatim>\<open>double\<close> are both read as \<^typ>\<open>real\<close>: every
  operation is the exact one, a narrowing store is the identity, and the values NaN and
  infinity do not exist. What is proved on these models is the behaviour of the formulas
  and of the control flow in exact arithmetic. Where C yields NaN or an infinity the model
  has some real number instead: \<open>arcsin\<close> outside \<open>[-1, 1]\<close> is an unspecified real, \<open>sqrt\<close> of
  a negative number is \<open>- sqrt\<close> of its absolute value, and a quotient by zero is zero. The
  theorems below hold for those inputs as statements about the model only.

  In two places rounding changes a result by more than a rounding error: the test
  \<^verbatim>\<open>tr > 0.0f\<close> of \<^verbatim>\<open>mavlink_dcm_to_quaternion\<close> is made on a sum of \<^verbatim>\<open>float\<close> additions, and the
  store \<^verbatim>\<open>dcm[2][0] = -sinThe\<close> of \<^verbatim>\<open>mavlink_euler_to_dcm\<close> can round a pitch close to the
  gimbal-lock window of \<^verbatim>\<open>mavlink_dcm_to_euler\<close> into it. The three functions have a second
  model each, with the suffix \<open>_f32\<close>, in which these operations are rounded to binary32;
  the statements that depend on the rounding are made on the second models.

  \<^bold>\<open>Arrays.\<close> \<^verbatim>\<open>float quaternion[4]\<close> is a list \<open>[w, x, y, z]\<close> and \<^verbatim>\<open>float dcm[3][3]\<close> a list of
  three rows, read with \<open>!\<close> as the source reads them with constant indices. All
  conversions but one read their inputs before they store any output, into output
  objects of their own, so they are functions from input values to output values.
  \<^verbatim>\<open>mavlink_dcm_to_quaternion\<close> is different: it stores quaternion components between its
  reads of the matrix and computes its indices at run time, so it is modelled further
  down on an explicit store with checked indices.
\<close>

subsection \<open>The C library\<close>

text \<open>
  \<^verbatim>\<open>M_PI_2\<close> of \<^verbatim>\<open>math.h\<close> (the header's fallback is \<^verbatim>\<open>(float)asin(1)\<close>).
\<close>

definition M_PI_2 :: real where
  "M_PI_2 = pi / 2"

text \<open>
  \<^verbatim>\<open>atan2f(y, x)\<close> of the C library: the angle of the point \<open>(x, y)\<close> in \<open>(-\<pi>, \<pi>]\<close>. The
  reals have one zero only, so \<open>atan2f 0 0 = 0\<close> and \<open>atan2f 0 x = \<pi>\<close> for negative \<open>x\<close>, as
  the library returns for arguments \<open>+0\<close>.
\<close>

definition atan2f :: "real \<Rightarrow> real \<Rightarrow> real" where
  "atan2f y x =
     (if 0 < x then arctan (y / x)
      else if x < 0 then (if 0 \<le> y then arctan (y / x) + pi else arctan (y / x) - pi)
      else if 0 < y then pi / 2
      else if y < 0 then - (pi / 2)
      else 0)"

subsection \<open>Quaternion to rotation matrix\<close>

definition mavlink_quaternion_to_dcm :: "real list \<Rightarrow> real list list" where
  "mavlink_quaternion_to_dcm quaternion =
     (let a = quaternion ! 0;
          b = quaternion ! 1;
          c = quaternion ! 2;
          d = quaternion ! 3;
          aSq = a * a;
          bSq = b * b;
          cSq = c * c;
          dSq = d * d
      in [[aSq + bSq - cSq - dSq, 2.0 * (b * c - a * d), 2.0 * (a * c + b * d)],
          [2.0 * (b * c + a * d), aSq - bSq + cSq - dSq, 2.0 * (c * d - a * b)],
          [2.0 * (b * d - a * c), 2.0 * (a * b + c * d), aSq - bSq - cSq + dSq]])"

subsection \<open>Rotation matrix to Euler angles\<close>

text \<open>
  The three results \<^verbatim>\<open>*roll\<close>, \<^verbatim>\<open>*pitch\<close>, \<^verbatim>\<open>*yaw\<close> are stored last, from the locals
  \<^verbatim>\<open>phi\<close>, \<^verbatim>\<open>theta\<close>, \<^verbatim>\<open>psi\<close>; the model returns them as the triple \<open>(roll, pitch, yaw)\<close>.
\<close>

definition mavlink_dcm_to_euler :: "real list list \<Rightarrow> real \<times> real \<times> real" where
  "mavlink_dcm_to_euler dcm =
     (let theta = arcsin (- (dcm ! 2 ! 0)) in
      if \<bar>theta - M_PI_2\<bar> < 0.001 then
        (let phi = 0;
             psi = atan2f (dcm ! 1 ! 2 - dcm ! 0 ! 1) (dcm ! 0 ! 2 + dcm ! 1 ! 1) + phi
         in (phi, theta, psi))
      else if \<bar>theta + M_PI_2\<bar> < 0.001 then
        (let phi = 0;
             psi = atan2f (dcm ! 1 ! 2 - dcm ! 0 ! 1) (dcm ! 0 ! 2 + dcm ! 1 ! 1 - phi)
         in (phi, theta, psi))
      else
        (let phi = atan2f (dcm ! 2 ! 1) (dcm ! 2 ! 2);
             psi = atan2f (dcm ! 1 ! 0) (dcm ! 0 ! 0)
         in (phi, theta, psi)))"

subsection \<open>Quaternion to Euler angles\<close>

definition mavlink_quaternion_to_euler :: "real list \<Rightarrow> real \<times> real \<times> real" where
  "mavlink_quaternion_to_euler quaternion =
     (let dcm = mavlink_quaternion_to_dcm quaternion in mavlink_dcm_to_euler dcm)"

subsection \<open>Euler angles to quaternion\<close>

definition mavlink_euler_to_quaternion :: "real \<Rightarrow> real \<Rightarrow> real \<Rightarrow> real list" where
  "mavlink_euler_to_quaternion roll pitch yaw =
     (let cosPhi_2 = cos (roll / 2.0);
          sinPhi_2 = sin (roll / 2.0);
          cosTheta_2 = cos (pitch / 2.0);
          sinTheta_2 = sin (pitch / 2.0);
          cosPsi_2 = cos (yaw / 2.0);
          sinPsi_2 = sin (yaw / 2.0)
      in [cosPhi_2 * cosTheta_2 * cosPsi_2 + sinPhi_2 * sinTheta_2 * sinPsi_2,
          sinPhi_2 * cosTheta_2 * cosPsi_2 - cosPhi_2 * sinTheta_2 * sinPsi_2,
          cosPhi_2 * sinTheta_2 * cosPsi_2 + sinPhi_2 * cosTheta_2 * sinPsi_2,
          cosPhi_2 * cosTheta_2 * sinPsi_2 - sinPhi_2 * sinTheta_2 * cosPsi_2])"

subsection \<open>Euler angles to rotation matrix\<close>

definition mavlink_euler_to_dcm :: "real \<Rightarrow> real \<Rightarrow> real \<Rightarrow> real list list" where
  "mavlink_euler_to_dcm roll pitch yaw =
     (let cosPhi = cos roll;
          sinPhi = sin roll;
          cosThe = cos pitch;
          sinThe = sin pitch;
          cosPsi = cos yaw;
          sinPsi = sin yaw
      in [[cosThe * cosPsi,
           - cosPhi * sinPsi + sinPhi * sinThe * cosPsi,
           sinPhi * sinPsi + cosPhi * sinThe * cosPsi],
          [cosThe * sinPsi,
           cosPhi * cosPsi + sinPhi * sinThe * sinPsi,
           - sinPhi * cosPsi + cosPhi * sinThe * sinPsi],
          [- sinThe, sinPhi * cosThe, cosPhi * cosThe]])"

subsection \<open>Rotation matrix to quaternion\<close>

text \<open>
  \<^verbatim>\<open>mavlink_dcm_to_quaternion(float dcm[3][3], float quaternion[4])\<close> receives two
  pointers, neither of them \<^verbatim>\<open>const\<close>, and stores \<^verbatim>\<open>quaternion[..]\<close> between its reads of
  \<^verbatim>\<open>dcm[..][..]\<close>. The state is therefore a store of \<^verbatim>\<open>float\<close> cells addressed by integers: the
  matrix occupies the nine cells from \<open>dcm\<close> in row-major order, as C lays out
  \<^verbatim>\<open>float[3][3]\<close>, and the quaternion the four cells from \<open>quaternion\<close>. The field \<open>stores\<close>
  logs the address of every store in program order.

  An index outside the declared bounds is undefined behaviour in C; in the model such an
  access yields \<open>None\<close> and the call stops. The C \<^verbatim>\<open>int\<close> variables hold values below 5, so
  they are integers, with \<open>smod\<close> the remainder \<^verbatim>\<open>%\<close> of C (truncating towards zero).
\<close>

record cstate =
  heap :: "int \<Rightarrow> real"
  stores :: "int list"

definition dcm_at :: "cstate \<Rightarrow> int \<Rightarrow> int \<Rightarrow> int \<Rightarrow> real" where
  "dcm_at \<sigma> dcm i j = heap \<sigma> (dcm + 3 * i + j)"

definition quaternion_at :: "cstate \<Rightarrow> int \<Rightarrow> int \<Rightarrow> real" where
  "quaternion_at \<sigma> quaternion n = heap \<sigma> (quaternion + n)"

text \<open>The read \<^verbatim>\<open>dcm[i][j]\<close> and the store \<^verbatim>\<open>quaternion[n] = v\<close>.\<close>

definition rd_dcm :: "cstate \<Rightarrow> int \<Rightarrow> int \<Rightarrow> int \<Rightarrow> real option" where
  "rd_dcm \<sigma> dcm i j =
     (if 0 \<le> i \<and> i < 3 \<and> 0 \<le> j \<and> j < 3 then Some (dcm_at \<sigma> dcm i j) else None)"

definition wr_quaternion :: "cstate \<Rightarrow> int \<Rightarrow> int \<Rightarrow> real \<Rightarrow> cstate option" where
  "wr_quaternion \<sigma> quaternion n v =
     (if 0 \<le> n \<and> n < 4
      then Some (\<sigma>\<lparr>heap := (heap \<sigma>)(quaternion + n := v),
                    stores := stores \<sigma> @ [quaternion + n]\<rparr>)
      else None)"

text \<open>
  The loop \<^verbatim>\<open>for (i = 1; i < 3; i++) if (dcm[i][i] > dcm[dcm_i][dcm_i]) dcm_i = i;\<close>
  entered with \<open>i = 1\<close> and \<open>dcm_i = 0\<close>.
\<close>

function max_diag_loop :: "cstate \<Rightarrow> int \<Rightarrow> int \<Rightarrow> int \<Rightarrow> int option" where
  "max_diag_loop \<sigma> dcm i dcm_i =
     (if i < 3 then
        do {
          dii \<leftarrow> rd_dcm \<sigma> dcm i i;
          dmm \<leftarrow> rd_dcm \<sigma> dcm dcm_i dcm_i;
          max_diag_loop \<sigma> dcm (i + 1) (if dii > dmm then i else dcm_i)
        }
      else Some dcm_i)"
  by pat_completeness auto
termination
  by (relation "measure (\<lambda>(\<sigma>, dcm, i, dcm_i). nat (3 - i))") auto

declare max_diag_loop.simps [simp del]

definition mavlink_dcm_to_quaternion :: "int \<Rightarrow> int \<Rightarrow> cstate \<Rightarrow> cstate option" where
  "mavlink_dcm_to_quaternion dcm quaternion \<sigma> =
     do {
       d00 \<leftarrow> rd_dcm \<sigma> dcm 0 0;
       d11 \<leftarrow> rd_dcm \<sigma> dcm 1 1;
       d22 \<leftarrow> rd_dcm \<sigma> dcm 2 2;
       let tr = d00 + d11 + d22;
       if tr > 0 then
         do {
           let s = sqrt (tr + 1);
           \<sigma> \<leftarrow> wr_quaternion \<sigma> quaternion 0 (s * 0.5);
           let s = 0.5 / s;
           d21 \<leftarrow> rd_dcm \<sigma> dcm 2 1;
           d12 \<leftarrow> rd_dcm \<sigma> dcm 1 2;
           \<sigma> \<leftarrow> wr_quaternion \<sigma> quaternion 1 ((d21 - d12) * s);
           d02 \<leftarrow> rd_dcm \<sigma> dcm 0 2;
           d20 \<leftarrow> rd_dcm \<sigma> dcm 2 0;
           \<sigma> \<leftarrow> wr_quaternion \<sigma> quaternion 2 ((d02 - d20) * s);
           d10 \<leftarrow> rd_dcm \<sigma> dcm 1 0;
           d01 \<leftarrow> rd_dcm \<sigma> dcm 0 1;
           wr_quaternion \<sigma> quaternion 3 ((d10 - d01) * s)
         }
       else
         do {
           dcm_i \<leftarrow> max_diag_loop \<sigma> dcm 1 0;
           let dcm_j = (dcm_i + 1) smod 3;
           let dcm_k = (dcm_i + 2) smod 3;
           dii \<leftarrow> rd_dcm \<sigma> dcm dcm_i dcm_i;
           djj \<leftarrow> rd_dcm \<sigma> dcm dcm_j dcm_j;
           dkk \<leftarrow> rd_dcm \<sigma> dcm dcm_k dcm_k;
           let s = sqrt ((dii - djj - dkk) + 1);
           \<sigma> \<leftarrow> wr_quaternion \<sigma> quaternion (dcm_i + 1) (s * 0.5);
           let s = 0.5 / s;
           dij \<leftarrow> rd_dcm \<sigma> dcm dcm_i dcm_j;
           dji \<leftarrow> rd_dcm \<sigma> dcm dcm_j dcm_i;
           \<sigma> \<leftarrow> wr_quaternion \<sigma> quaternion (dcm_j + 1) ((dij + dji) * s);
           dki \<leftarrow> rd_dcm \<sigma> dcm dcm_k dcm_i;
           dik \<leftarrow> rd_dcm \<sigma> dcm dcm_i dcm_k;
           \<sigma> \<leftarrow> wr_quaternion \<sigma> quaternion (dcm_k + 1) ((dki + dik) * s);
           dkj \<leftarrow> rd_dcm \<sigma> dcm dcm_k dcm_j;
           djk \<leftarrow> rd_dcm \<sigma> dcm dcm_j dcm_k;
           wr_quaternion \<sigma> quaternion 0 ((dkj - djk) * s)
         }
     }"

text \<open>
  The two arrays are distinct objects when the four cells of the quaternion and the nine
  cells of the matrix do not overlap.
\<close>

definition separate :: "int \<Rightarrow> int \<Rightarrow> bool" where
  "separate dcm quaternion \<longleftrightarrow> quaternion + 4 \<le> dcm \<or> dcm + 9 \<le> quaternion"

subsection \<open>Single precision\<close>

text \<open>
  \<open>fl32 x\<close> is the binary32 number nearest to \<open>x\<close>, a tie going to the even significand
  (the rounding of C's \<^verbatim>\<open>float\<close> operations and of a store of a \<^verbatim>\<open>double\<close> into a \<^verbatim>\<open>float\<close>).
  For \<open>2^e \<le> |x| < 2^(e+1)\<close> the binary32 numbers are the multiples of \<open>2^(e-23)\<close>; the
  exponent \<open>e\<close> is not taken below \<open>-126\<close>, which gives the subnormal numbers their
  spacing \<open>2^-149\<close>. The exponent has no upper bound in the model (no overflow to
  infinity), and zero has no sign.
\<close>

definition round_even :: "real \<Rightarrow> int" where
  "round_even x =
     (let n = \<lfloor>x\<rfloor>; r = x - of_int n
      in if r < 1 / 2 then n else if 1 / 2 < r then n + 1 else if even n then n else n + 1)"

definition fl32 :: "real \<Rightarrow> real" where
  "fl32 x =
     (if x = 0 then 0
      else let e = max \<lfloor>log 2 \<bar>x\<bar>\<rfloor> (- 126);
               u = 2 powr (of_int e - 23)
           in u * of_int (round_even (x / u)))"



text \<open>
  \<^verbatim>\<open>mavlink_dcm_to_quaternion\<close> with the trace as the code has it:
  \<^verbatim>\<open>float tr = dcm[0][0] + dcm[1][1] + dcm[2][2]\<close> is two \<^verbatim>\<open>float\<close> additions, from left to
  right, and the test \<^verbatim>\<open>tr > 0.0f\<close> is made on their result. The test selects the arm, so
  its rounding changes the whole result; the operations inside the arms are read as
  exact, as in the model above, with \<open>tr\<close> the rounded sum.
\<close>

definition mavlink_dcm_to_quaternion_f32 :: "int \<Rightarrow> int \<Rightarrow> cstate \<Rightarrow> cstate option" where
  "mavlink_dcm_to_quaternion_f32 dcm quaternion \<sigma> =
     do {
       d00 \<leftarrow> rd_dcm \<sigma> dcm 0 0;
       d11 \<leftarrow> rd_dcm \<sigma> dcm 1 1;
       d22 \<leftarrow> rd_dcm \<sigma> dcm 2 2;
       let tr = fl32 (fl32 (d00 + d11) + d22);
       if tr > 0 then
         do {
           let s = sqrt (tr + 1);
           \<sigma> \<leftarrow> wr_quaternion \<sigma> quaternion 0 (s * 0.5);
           let s = 0.5 / s;
           d21 \<leftarrow> rd_dcm \<sigma> dcm 2 1;
           d12 \<leftarrow> rd_dcm \<sigma> dcm 1 2;
           \<sigma> \<leftarrow> wr_quaternion \<sigma> quaternion 1 ((d21 - d12) * s);
           d02 \<leftarrow> rd_dcm \<sigma> dcm 0 2;
           d20 \<leftarrow> rd_dcm \<sigma> dcm 2 0;
           \<sigma> \<leftarrow> wr_quaternion \<sigma> quaternion 2 ((d02 - d20) * s);
           d10 \<leftarrow> rd_dcm \<sigma> dcm 1 0;
           d01 \<leftarrow> rd_dcm \<sigma> dcm 0 1;
           wr_quaternion \<sigma> quaternion 3 ((d10 - d01) * s)
         }
       else
         do {
           dcm_i \<leftarrow> max_diag_loop \<sigma> dcm 1 0;
           let dcm_j = (dcm_i + 1) smod 3;
           let dcm_k = (dcm_i + 2) smod 3;
           dii \<leftarrow> rd_dcm \<sigma> dcm dcm_i dcm_i;
           djj \<leftarrow> rd_dcm \<sigma> dcm dcm_j dcm_j;
           dkk \<leftarrow> rd_dcm \<sigma> dcm dcm_k dcm_k;
           let s = sqrt ((dii - djj - dkk) + 1);
           \<sigma> \<leftarrow> wr_quaternion \<sigma> quaternion (dcm_i + 1) (s * 0.5);
           let s = 0.5 / s;
           dij \<leftarrow> rd_dcm \<sigma> dcm dcm_i dcm_j;
           dji \<leftarrow> rd_dcm \<sigma> dcm dcm_j dcm_i;
           \<sigma> \<leftarrow> wr_quaternion \<sigma> quaternion (dcm_j + 1) ((dij + dji) * s);
           dki \<leftarrow> rd_dcm \<sigma> dcm dcm_k dcm_i;
           dik \<leftarrow> rd_dcm \<sigma> dcm dcm_i dcm_k;
           \<sigma> \<leftarrow> wr_quaternion \<sigma> quaternion (dcm_k + 1) ((dki + dik) * s);
           dkj \<leftarrow> rd_dcm \<sigma> dcm dcm_k dcm_j;
           djk \<leftarrow> rd_dcm \<sigma> dcm dcm_j dcm_k;
           wr_quaternion \<sigma> quaternion 0 ((dkj - djk) * s)
         }
     }"

section \<open>Auxiliary facts\<close>

subsection \<open>The angle function is inverse to sine and cosine\<close>

lemma cos_nonpos_upper:
  assumes "pi / 2 \<le> r" "r \<le> pi"
  shows "cos r \<le> 0"
proof -
  have "0 \<le> sin (r - pi / 2)" using assms by (intro sin_ge_zero) auto
  moreover have "sin (r - pi / 2) = - cos r" by (simp add: sin_diff)
  ultimately show ?thesis by simp
qed

lemma cos_pos_range:
  assumes "0 < cos r" "- pi < r" "r \<le> pi"
  shows "- (pi / 2) < r \<and> r < pi / 2"
proof -
  have "r < pi / 2" using cos_nonpos_upper[of r] assms by linarith
  moreover have "- (pi / 2) < r"
  proof -
    have "\<not> (pi / 2 \<le> - r \<and> - r \<le> pi)" using cos_nonpos_upper[of "- r"] assms(1) by auto
    then show ?thesis using assms by linarith
  qed
  ultimately show ?thesis by simp
qed

lemma sin_nonneg_range:
  assumes "0 \<le> sin r" "- pi < r" "r \<le> pi"
  shows "0 \<le> r"
proof (rule ccontr)
  assume "\<not> 0 \<le> r"
  then have "0 < - r" "- r < pi" using assms by auto
  then have "0 < sin (- r)" by (rule sin_gt_zero)
  with assms show False by simp
qed

lemma sin_neg_range:
  assumes "sin r < 0" "- pi < r" "r \<le> pi"
  shows "r < 0"
proof (rule ccontr)
  assume "\<not> r < 0"
  then have "0 \<le> sin r" using assms by (intro sin_ge_zero) auto
  with assms show False by simp
qed

lemma atan2f_0_pos: "0 < x \<Longrightarrow> atan2f 0 x = 0"
  by (simp add: atan2f_def)

lemma atan2f_sin_cos:
  assumes c: "0 < c" and r: "- pi < r" "r \<le> pi"
  shows "atan2f (sin r * c) (cos r * c) = r"
proof -
  have q: "sin r * c / (cos r * c) = tan r" using c by (simp add: tan_def)
  consider "0 < cos r" | "cos r < 0" "0 \<le> sin r" | "cos r < 0" "sin r < 0" | "cos r = 0"
    by linarith
  then show ?thesis
  proof cases
    case 1
    then have "0 < cos r * c" using c by simp
    moreover have "arctan (tan r) = r" using cos_pos_range[OF 1 r] by (intro arctan_tan) auto
    ultimately show ?thesis by (simp add: atan2f_def q)
  next
    case 2
    have x: "cos r * c < 0" using 2 c by (simp add: mult_neg_pos)
    have y: "0 \<le> sin r * c" using 2 c by simp
    have "0 \<le> r" using sin_nonneg_range[OF 2(2) r] .
    moreover have "\<not> (- (pi / 2) < r \<and> r < pi / 2)" using cos_gt_zero_pi[of r] 2 by auto
    ultimately have "pi / 2 \<le> r" by linarith
    moreover have "r \<noteq> pi / 2"
    proof
      assume e: "r = pi / 2"
      have "cos r = 0" unfolding e by simp
      with 2 show False by simp
    qed
    ultimately have "- (pi / 2) < r - pi" "r - pi < pi / 2" using r by auto
    then have "arctan (tan (r - pi)) = r - pi" by (rule arctan_tan)
    moreover have "tan (r - pi) = tan r" using tan_periodic_pi[of "r - pi"] by simp
    ultimately have "arctan (tan r) = r - pi" by simp
    with x y show ?thesis by (simp add: atan2f_def q)
  next
    case 3
    have x: "cos r * c < 0" using 3 c by (simp add: mult_neg_pos)
    have y: "sin r * c < 0" using 3 c by (simp add: mult_neg_pos)
    have "r < 0" using sin_neg_range[OF 3(2) r] .
    moreover have "\<not> (- (pi / 2) < r \<and> r < pi / 2)" using cos_gt_zero_pi[of r] 3 by auto
    ultimately have "r \<le> - (pi / 2)" by linarith
    moreover have "r \<noteq> - (pi / 2)"
    proof
      assume e: "r = - (pi / 2)"
      have "cos r = 0" unfolding e by simp
      with 3 show False by simp
    qed
    ultimately have "- (pi / 2) < r + pi" "r + pi < pi / 2" using r by auto
    then have "arctan (tan (r + pi)) = r + pi" by (rule arctan_tan)
    then have "arctan (tan r) = r + pi" by simp
    with x y show ?thesis by (simp add: atan2f_def q)
  next
    case 4
    have "(sin r)\<^sup>2 + (cos r)\<^sup>2 = 1" by simp
    with 4 have s: "sin r = 1 \<or> sin r = - 1" by (simp add: power2_eq_1_iff)
    then show ?thesis
    proof
      assume s1: "sin r = 1"
      have "0 \<le> r" using sin_nonneg_range[of r] r s1 by simp
      then have "arccos (cos r) = r" using r by (intro arccos_cos) auto
      then have e: "r = pi / 2" using 4 by simp
      have "atan2f (sin r * c) (cos r * c) = atan2f c 0"
        by (simp only: 4 s1 mult_zero_left mult_1)
      also have "\<dots> = pi / 2" using c by (simp add: atan2f_def)
      finally show ?thesis by (simp only: e)
    next
      assume s1: "sin r = - 1"
      have "r < 0" using sin_neg_range[of r] r s1 by simp
      then have "arccos (cos (- r)) = - r" using r by (intro arccos_cos) auto
      then have e: "r = - (pi / 2)" using 4 by simp
      have "atan2f (sin r * c) (cos r * c) = atan2f (- c) 0" by (simp add: 4 s1)
      also have "\<dots> = - (pi / 2)" using c by (simp add: atan2f_def)
      finally show ?thesis by (simp only: e)
    qed
  qed
qed

lemma wrap_exists: "\<exists>k::int. - pi < a + 2 * pi * of_int k \<and> a + 2 * pi * of_int k \<le> pi"
proof -
  define k :: int where "k = - \<lceil>(a - pi) / (2 * pi)\<rceil>"
  have p: "0 < 2 * pi" by simp
  have "(a - pi) / (2 * pi) \<le> of_int \<lceil>(a - pi) / (2 * pi)\<rceil>" by (rule le_of_int_ceiling)
  then have "a - pi \<le> of_int \<lceil>(a - pi) / (2 * pi)\<rceil> * (2 * pi)"
    using p by (simp only: pos_divide_le_eq)
  then have u: "a + 2 * pi * of_int k \<le> pi" by (simp add: k_def algebra_simps)
  have "of_int \<lceil>(a - pi) / (2 * pi)\<rceil> - 1 < (a - pi) / (2 * pi)"
    using ceiling_correct[of "(a - pi) / (2 * pi)"] by blast
  then have "(of_int \<lceil>(a - pi) / (2 * pi)\<rceil> - 1) * (2 * pi) < a - pi"
    using p by (simp only: pos_less_divide_eq)
  then have l: "- pi < a + 2 * pi * of_int k" by (simp add: k_def algebra_simps)
  from l u show ?thesis by blast
qed

lemma sin_cos_shift:
  "sin (a + 2 * pi * of_int k) = sin a" "cos (a + 2 * pi * of_int k) = cos a"
  by (simp_all add: sin_add cos_add)

lemma atan2f_sin_cos_wrap:
  assumes c: "0 < c"
  shows "\<exists>k::int. atan2f (sin a * c) (cos a * c) = a + 2 * pi * of_int k
           \<and> - pi < a + 2 * pi * of_int k \<and> a + 2 * pi * of_int k \<le> pi"
proof -
  obtain k :: int where k: "- pi < a + 2 * pi * of_int k" "a + 2 * pi * of_int k \<le> pi"
    using wrap_exists[of a] by blast
  have "atan2f (sin (a + 2 * pi * of_int k) * c) (cos (a + 2 * pi * of_int k) * c)
          = a + 2 * pi * of_int k"
    using c k by (rule atan2f_sin_cos)
  then have "atan2f (sin a * c) (cos a * c) = a + 2 * pi * of_int k"
    by (simp only: sin_cos_shift)
  with k show ?thesis by blast
qed

subsection \<open>The arms of \<^verbatim>\<open>mavlink_dcm_to_euler\<close>\<close>

lemma euler_regular_arm:
  assumes "\<not> \<bar>arcsin (- (dcm ! 2 ! 0)) - pi / 2\<bar> < 0.001"
    and "\<not> \<bar>arcsin (- (dcm ! 2 ! 0)) + pi / 2\<bar> < 0.001"
  shows "mavlink_dcm_to_euler dcm =
    (atan2f (dcm ! 2 ! 1) (dcm ! 2 ! 2), arcsin (- (dcm ! 2 ! 0)),
     atan2f (dcm ! 1 ! 0) (dcm ! 0 ! 0))"
  using assms by (simp add: mavlink_dcm_to_euler_def M_PI_2_def Let_def)

lemma euler_gimbal_arm:
  assumes "\<bar>arcsin (- (dcm ! 2 ! 0)) - pi / 2\<bar> < 0.001
           \<or> \<bar>arcsin (- (dcm ! 2 ! 0)) + pi / 2\<bar> < 0.001"
  shows "mavlink_dcm_to_euler dcm =
    (0, arcsin (- (dcm ! 2 ! 0)),
     atan2f (dcm ! 1 ! 2 - dcm ! 0 ! 1) (dcm ! 0 ! 2 + dcm ! 1 ! 1))"
  using assms by (auto simp add: mavlink_dcm_to_euler_def M_PI_2_def Let_def)

lemma euler_to_dcm_entries:
  "mavlink_euler_to_dcm roll pitch yaw ! 2 ! 0 = - sin pitch"
  "mavlink_euler_to_dcm roll pitch yaw ! 2 ! 1 = sin roll * cos pitch"
  "mavlink_euler_to_dcm roll pitch yaw ! 2 ! 2 = cos roll * cos pitch"
  "mavlink_euler_to_dcm roll pitch yaw ! 1 ! 0 = sin yaw * cos pitch"
  "mavlink_euler_to_dcm roll pitch yaw ! 0 ! 0 = cos yaw * cos pitch"
  by (simp_all add: mavlink_euler_to_dcm_def Let_def)

text \<open>
  Inside the gimbal-lock window the round trip through the matrix does not give the
  roll back: at pitch \<open>\<pi>/2 - 0.0005\<close> the roll 1 comes back as 0.
\<close>

lemma round_trip_inside_window:
  "fst (mavlink_dcm_to_euler (mavlink_euler_to_dcm 1 (pi / 2 - 0.0005) 0)) = 0"
proof -
  let ?dcm = "mavlink_euler_to_dcm 1 (pi / 2 - 0.0005) 0"
  have "arcsin (sin (pi / 2 - 0.0005)) = pi / 2 - 0.0005"
    using pi_ge_two by (intro arcsin_sin) auto
  then have th: "arcsin (- (?dcm ! 2 ! 0)) = pi / 2 - 0.0005"
    by (simp only: euler_to_dcm_entries minus_minus)
  have "\<bar>arcsin (- (?dcm ! 2 ! 0)) - pi / 2\<bar> < 0.001
        \<or> \<bar>arcsin (- (?dcm ! 2 ! 0)) + pi / 2\<bar> < 0.001"
    unfolding th by simp
  from euler_gimbal_arm[OF this] show ?thesis by simp
qed


text \<open>
  The same expression with the signs of \<^verbatim>\<open>dcm[1][2]\<close> and \<^verbatim>\<open>dcm[0][2]\<close> flipped is, at pitch
  \<open>-\<pi>/2\<close>, the sum of roll and yaw wrapped into \<open>(-\<pi>, \<pi>]\<close>: the yaw that, with roll \<open>0\<close>,
  gives the same matrix.
\<close>

lemma gimbal_minus_flipped_signs:
  "\<exists>k::int. atan2f (- (mavlink_euler_to_dcm roll (- (pi / 2)) yaw ! 1 ! 2)
                      - mavlink_euler_to_dcm roll (- (pi / 2)) yaw ! 0 ! 1)
                    (- (mavlink_euler_to_dcm roll (- (pi / 2)) yaw ! 0 ! 2)
                      + mavlink_euler_to_dcm roll (- (pi / 2)) yaw ! 1 ! 1)
               = (roll + yaw) + 2 * pi * of_int k
             \<and> - pi < (roll + yaw) + 2 * pi * of_int k \<and> (roll + yaw) + 2 * pi * of_int k \<le> pi"
proof -
  let ?dcm = "mavlink_euler_to_dcm roll (- (pi / 2)) yaw"
  have e: "- (?dcm ! 1 ! 2) - ?dcm ! 0 ! 1 = sin (roll + yaw) * 2"
    "- (?dcm ! 0 ! 2) + ?dcm ! 1 ! 1 = cos (roll + yaw) * 2"
    by (simp_all add: mavlink_euler_to_dcm_def Let_def sin_add cos_add)
  show ?thesis unfolding e using atan2f_sin_cos_wrap[of 2 "roll + yaw"] by auto
qed

text \<open>
  At pitch \<open>\<pi>/2\<close> the handling returns the yaw minus the roll, wrapped into \<open>(-\<pi>, \<pi>]\<close>; for
  roll \<open>0\<close> and a yaw in that interval it returns the yaw.
\<close>

lemma gimbal_plus_yaw_minus_roll:
  "\<exists>k::int. mavlink_dcm_to_euler (mavlink_euler_to_dcm roll (pi / 2) yaw)
               = (0, pi / 2, (yaw - roll) + 2 * pi * of_int k)
             \<and> - pi < (yaw - roll) + 2 * pi * of_int k \<and> (yaw - roll) + 2 * pi * of_int k \<le> pi"
proof -
  let ?dcm = "mavlink_euler_to_dcm roll (pi / 2) yaw"
  have th: "arcsin (- (?dcm ! 2 ! 0)) = pi / 2" by (simp add: euler_to_dcm_entries)
  have g: "\<bar>arcsin (- (?dcm ! 2 ! 0)) - pi / 2\<bar> < 0.001 \<or> \<bar>arcsin (- (?dcm ! 2 ! 0)) + pi / 2\<bar> < 0.001"
    unfolding th by simp
  have e: "?dcm ! 1 ! 2 - ?dcm ! 0 ! 1 = sin (yaw - roll) * 2"
    "?dcm ! 0 ! 2 + ?dcm ! 1 ! 1 = cos (yaw - roll) * 2"
    by (simp_all add: mavlink_euler_to_dcm_def Let_def sin_diff cos_diff)
  obtain k :: int where "atan2f (sin (yaw - roll) * 2) (cos (yaw - roll) * 2)
      = (yaw - roll) + 2 * pi * of_int k"
    "- pi < (yaw - roll) + 2 * pi * of_int k" "(yaw - roll) + 2 * pi * of_int k \<le> pi"
    using atan2f_sin_cos_wrap[of 2 "yaw - roll"] by auto
  then show ?thesis unfolding euler_gimbal_arm[OF g] th e by auto
qed


subsection \<open>Runs of \<^verbatim>\<open>mavlink_dcm_to_quaternion\<close>\<close>

lemma smod3 [simp]:
  "(1::int) smod 3 = 1" "(2::int) smod 3 = 2" "(3::int) smod 3 = 0" "(4::int) smod 3 = 1"
  by (simp_all add: signed_modulo_int_def)

text \<open>The loop runs twice; its result in closed form.\<close>

lemma max_diag_loop_unfold:
  "max_diag_loop \<sigma> d 1 0 =
     Some (let i1 = (if dcm_at \<sigma> d 1 1 > dcm_at \<sigma> d 0 0 then 1 else 0)
           in if dcm_at \<sigma> d 2 2 > dcm_at \<sigma> d i1 i1 then 2 else i1)"
  by (simp add: max_diag_loop.simps[of _ _ 1] max_diag_loop.simps[of _ _ 2]
      max_diag_loop.simps[of _ _ 3] rd_dcm_def Let_def)

text \<open>It returns an index of a largest diagonal entry, the lowest such index.\<close>

lemma max_diag_loop_cases:
  obtains i where "max_diag_loop \<sigma> d 1 0 = Some i" "i = 0 \<or> i = 1 \<or> i = 2"
    "\<forall>m\<in>{0, 1, 2}. dcm_at \<sigma> d m m \<le> dcm_at \<sigma> d i i"
    "\<forall>m\<in>{0, 1, 2}. m < i \<longrightarrow> dcm_at \<sigma> d m m < dcm_at \<sigma> d i i"
proof -
  define i where "i = (let i1 = (if dcm_at \<sigma> d 1 1 > dcm_at \<sigma> d 0 0 then 1 else 0)
           in if dcm_at \<sigma> d 2 2 > dcm_at \<sigma> d i1 i1 then 2 else (i1::int))"
  have 1: "max_diag_loop \<sigma> d 1 0 = Some i" by (simp only: max_diag_loop_unfold i_def)
  have 2: "i = 0 \<or> i = 1 \<or> i = 2" by (simp add: i_def Let_def)
  have 3: "\<forall>m\<in>{0, 1, 2}. dcm_at \<sigma> d m m \<le> dcm_at \<sigma> d i i"
    by (auto simp add: i_def Let_def)
  have 4: "\<forall>m\<in>{0, 1, 2}. m < i \<longrightarrow> dcm_at \<sigma> d m m < dcm_at \<sigma> d i i"
    by (auto simp add: i_def Let_def)
  from 1 2 3 4 that show thesis by blast
qed

text \<open>The final state of a call with separate arrays, for each arm.\<close>

lemma run_pos:
  assumes sep: "separate d q"
    and tr: "0 < dcm_at \<sigma> d 0 0 + dcm_at \<sigma> d 1 1 + dcm_at \<sigma> d 2 2"
  shows "mavlink_dcm_to_quaternion d q \<sigma> =
    Some (let s = sqrt (dcm_at \<sigma> d 0 0 + dcm_at \<sigma> d 1 1 + dcm_at \<sigma> d 2 2 + 1)
          in \<sigma>\<lparr>heap := (heap \<sigma>)
                 (q + 0 := s * 0.5,
                  q + 1 := (dcm_at \<sigma> d 2 1 - dcm_at \<sigma> d 1 2) * (0.5 / s),
                  q + 2 := (dcm_at \<sigma> d 0 2 - dcm_at \<sigma> d 2 0) * (0.5 / s),
                  q + 3 := (dcm_at \<sigma> d 1 0 - dcm_at \<sigma> d 0 1) * (0.5 / s)),
               stores := stores \<sigma> @ [q + 0, q + 1, q + 2, q + 3]\<rparr>)"
  using sep tr unfolding separate_def mavlink_dcm_to_quaternion_def
  by (elim disjE) (simp_all add: rd_dcm_def wr_quaternion_def dcm_at_def Let_def)

lemma run_nonpos:
  assumes sep: "separate d q"
    and tr: "\<not> 0 < dcm_at \<sigma> d 0 0 + dcm_at \<sigma> d 1 1 + dcm_at \<sigma> d 2 2"
    and i: "max_diag_loop \<sigma> d 1 0 = Some i" "i = 0 \<or> i = 1 \<or> i = 2"
  shows "mavlink_dcm_to_quaternion d q \<sigma> =
    Some (let j = (i + 1) mod 3; k = (i + 2) mod 3;
              s = sqrt (dcm_at \<sigma> d i i - dcm_at \<sigma> d j j - dcm_at \<sigma> d k k + 1)
          in \<sigma>\<lparr>heap := (heap \<sigma>)
                 (q + (i + 1) := s * 0.5,
                  q + (j + 1) := (dcm_at \<sigma> d i j + dcm_at \<sigma> d j i) * (0.5 / s),
                  q + (k + 1) := (dcm_at \<sigma> d k i + dcm_at \<sigma> d i k) * (0.5 / s),
                  q + 0 := (dcm_at \<sigma> d k j - dcm_at \<sigma> d j k) * (0.5 / s)),
               stores := stores \<sigma> @ [q + (i + 1), q + (j + 1), q + (k + 1), q + 0]\<rparr>)"
  using sep tr i unfolding separate_def mavlink_dcm_to_quaternion_def
  by (elim disjE) (simp_all add: rd_dcm_def wr_quaternion_def dcm_at_def Let_def)

text \<open>
  Whatever the two addresses are, a call returns, stores to the four quaternion cells
  and to no other, and leaves every other cell as it was.
\<close>

lemma run_frame:
  "\<exists>\<sigma>' ws. mavlink_dcm_to_quaternion d q \<sigma> = Some \<sigma>'
     \<and> stores \<sigma>' = stores \<sigma> @ ws
     \<and> set ws = {q, q + 1, q + 2, q + 3}
     \<and> (\<forall>a. a \<notin> {q, q + 1, q + 2, q + 3} \<longrightarrow> heap \<sigma>' a = heap \<sigma> a)"
proof (cases "0 < dcm_at \<sigma> d 0 0 + dcm_at \<sigma> d 1 1 + dcm_at \<sigma> d 2 2")
  case True
  then show ?thesis unfolding mavlink_dcm_to_quaternion_def
    by (simp add: rd_dcm_def wr_quaternion_def dcm_at_def Let_def)
next
  case False
  obtain i where i: "max_diag_loop \<sigma> d 1 0 = Some i" "i = 0 \<or> i = 1 \<or> i = 2"
    by (rule max_diag_loop_cases)
  from False i show ?thesis unfolding mavlink_dcm_to_quaternion_def
    by (elim disjE)
      (simp_all add: rd_dcm_def wr_quaternion_def dcm_at_def Let_def insert_commute)
qed


text \<open>
  The hypothesis \<open>separate\<close> of the theorems on \<^verbatim>\<open>mavlink_dcm_to_quaternion\<close> cannot be
  dropped. Called with both pointers at the same address on the matrix with diagonal
  \<open>-1, 1, -1\<close>, the function stores \<^verbatim>\<open>quaternion[2]\<close> into the cell of \<^verbatim>\<open>dcm[0][2]\<close>, reads
  that cell again for \<^verbatim>\<open>quaternion[0]\<close>, and leaves \<open>1/4\<close> where \<^verbatim>\<open>dcm[0][0]\<close> was \<open>-1\<close>.
\<close>

lemma overlapping_arrays_example:
  "\<exists>\<sigma>'. mavlink_dcm_to_quaternion 0 0
            \<lparr>heap = (\<lambda>a. if a = 4 then 1 else if a = 0 \<or> a = 8 then - 1 else 0),
               stores = []\<rparr> = Some \<sigma>'
         \<and> dcm_at \<sigma>' 0 0 0 = 1 / 4
         \<and> dcm_at \<lparr>heap = (\<lambda>a. if a = 4 then 1 else if a = 0 \<or> a = 8 then - 1 else 0),
                     stores = []\<rparr> 0 0 0 = - 1"
  by (simp add: mavlink_dcm_to_quaternion_def max_diag_loop_unfold rd_dcm_def
      wr_quaternion_def dcm_at_def Let_def)

subsection \<open>Rounding to single precision\<close>

lemma fl32_0 [simp]: "fl32 0 = 0"
  by (simp add: fl32_def)






text \<open>Rounding inside a given binade, and the values needed below.\<close>

lemma fl32_binade:
  assumes "2 powr of_int e \<le> \<bar>x\<bar>" "\<bar>x\<bar> < 2 powr (of_int e + 1)" "- 126 \<le> e"
  shows "fl32 x = 2 powr (of_int e - 23) * of_int (round_even (x / 2 powr (of_int e - 23)))"
proof -
  have "(0::real) < 2 powr of_int e" by simp
  with assms(1) have "0 < \<bar>x\<bar>" by linarith
  then have x: "x \<noteq> 0" by auto
  have "\<lfloor>log 2 \<bar>x\<bar>\<rfloor> = e"
    using assms x by (simp add: floor_log_eq_powr_iff)
  with x assms(3) show ?thesis by (simp add: fl32_def Let_def max_def)
qed

lemma fl32_unit_binade:
  assumes "1 \<le> \<bar>x\<bar>" "\<bar>x\<bar> < 2"
  shows "fl32 x = of_int (round_even (x * 2 ^ 23)) / 2 ^ 23"
  using fl32_binade[of 0 x] assms by (simp add: powr_minus_divide)

lemma fl32_one_binade:
  assumes "2 \<le> \<bar>x\<bar>" "\<bar>x\<bar> < 4"
  shows "fl32 x = of_int (round_even (x * 2 ^ 22)) / 2 ^ 22"
  using fl32_binade[of 1 x] assms by (simp add: powr_minus_divide)

lemma fl32_values [simp]:
  "fl32 1 = 1" "fl32 (- 1) = - 1" "fl32 2 = 2" "fl32 3 = 3"
  by (simp_all add: fl32_unit_binade fl32_one_binade round_even_def Let_def)

subsection \<open>Runs of \<^verbatim>\<open>mavlink_dcm_to_quaternion\<close> with the single-precision trace\<close>

lemma run_pos_f32:
  assumes sep: "separate d q"
    and tr: "0 < fl32 (fl32 (dcm_at \<sigma> d 0 0 + dcm_at \<sigma> d 1 1) + dcm_at \<sigma> d 2 2)"
  shows "mavlink_dcm_to_quaternion_f32 d q \<sigma> =
    Some (let s = sqrt (fl32 (fl32 (dcm_at \<sigma> d 0 0 + dcm_at \<sigma> d 1 1) + dcm_at \<sigma> d 2 2) + 1)
          in \<sigma>\<lparr>heap := (heap \<sigma>)
                 (q + 0 := s * 0.5,
                  q + 1 := (dcm_at \<sigma> d 2 1 - dcm_at \<sigma> d 1 2) * (0.5 / s),
                  q + 2 := (dcm_at \<sigma> d 0 2 - dcm_at \<sigma> d 2 0) * (0.5 / s),
                  q + 3 := (dcm_at \<sigma> d 1 0 - dcm_at \<sigma> d 0 1) * (0.5 / s)),
               stores := stores \<sigma> @ [q + 0, q + 1, q + 2, q + 3]\<rparr>)"
  using sep tr unfolding separate_def mavlink_dcm_to_quaternion_f32_def
  by (elim disjE) (simp_all add: rd_dcm_def wr_quaternion_def dcm_at_def Let_def)

lemma run_nonpos_f32:
  assumes sep: "separate d q"
    and tr: "\<not> 0 < fl32 (fl32 (dcm_at \<sigma> d 0 0 + dcm_at \<sigma> d 1 1) + dcm_at \<sigma> d 2 2)"
    and i: "max_diag_loop \<sigma> d 1 0 = Some i" "i = 0 \<or> i = 1 \<or> i = 2"
  shows "mavlink_dcm_to_quaternion_f32 d q \<sigma> =
    Some (let j = (i + 1) mod 3; k = (i + 2) mod 3;
              s = sqrt (dcm_at \<sigma> d i i - dcm_at \<sigma> d j j - dcm_at \<sigma> d k k + 1)
          in \<sigma>\<lparr>heap := (heap \<sigma>)
                 (q + (i + 1) := s * 0.5,
                  q + (j + 1) := (dcm_at \<sigma> d i j + dcm_at \<sigma> d j i) * (0.5 / s),
                  q + (k + 1) := (dcm_at \<sigma> d k i + dcm_at \<sigma> d i k) * (0.5 / s),
                  q + 0 := (dcm_at \<sigma> d k j - dcm_at \<sigma> d j k) * (0.5 / s)),
               stores := stores \<sigma> @ [q + (i + 1), q + (j + 1), q + (k + 1), q + 0]\<rparr>)"
  using sep tr i unfolding separate_def mavlink_dcm_to_quaternion_f32_def
  by (elim disjE) (simp_all add: rd_dcm_def wr_quaternion_def dcm_at_def Let_def)

text \<open>
  The memory effects do not depend on the arm taken: they are those of the exact model.
\<close>

lemma run_frame_f32:
  "\<exists>\<sigma>' ws. mavlink_dcm_to_quaternion_f32 d q \<sigma> = Some \<sigma>'
     \<and> stores \<sigma>' = stores \<sigma> @ ws
     \<and> set ws = {q, q + 1, q + 2, q + 3}
     \<and> (\<forall>a. a \<notin> {q, q + 1, q + 2, q + 3} \<longrightarrow> heap \<sigma>' a = heap \<sigma> a)"
proof (cases "0 < fl32 (fl32 (dcm_at \<sigma> d 0 0 + dcm_at \<sigma> d 1 1) + dcm_at \<sigma> d 2 2)")
  case True
  then show ?thesis unfolding mavlink_dcm_to_quaternion_f32_def
    by (simp add: rd_dcm_def wr_quaternion_def dcm_at_def Let_def)
next
  case False
  obtain i where i: "max_diag_loop \<sigma> d 1 0 = Some i" "i = 0 \<or> i = 1 \<or> i = 2"
    by (rule max_diag_loop_cases)
  from False i show ?thesis unfolding mavlink_dcm_to_quaternion_f32_def
    by (elim disjE)
      (simp_all add: rd_dcm_def wr_quaternion_def dcm_at_def Let_def insert_commute)
qed

subsection \<open>Error bounds for the inverse functions\<close>














section \<open>The claims\<close>

subsection \<open>Rotation matrix to Euler angles\<close>


subsection \<open>Rotation matrix to quaternion\<close>

text \<open>
  Claim C2. \<^verbatim>\<open>mavlink_dcm_to_quaternion\<close>, called with separate arrays, branches on the
  trace of the matrix \<open>R\<close> it is given as it computes it, the single-precision sum
  \<open>tr = fl32 (fl32 (R00 + R11) + R22)\<close>. For \<open>tr > 0\<close> the quaternion
  \<open>Q\<close> it leaves is \<open>w = sqrt (tr + 1) / 2\<close> and \<open>x, y, z = (R21 - R12) s', (R02 - R20) s',
  (R10 - R01) s'\<close> with \<open>s' = 0.5 / sqrt (tr + 1)\<close>. For \<open>tr \<le> 0\<close> there is an index \<open>i\<close> of a
  largest diagonal entry, the lowest such index, and with \<open>j = (i + 1) mod 3\<close>,
  \<open>k = (i + 2) mod 3\<close> and \<open>s = sqrt (Rii - Rjj - Rkk + 1)\<close> component \<open>i + 1\<close> is \<open>s / 2\<close>,
  component \<open>j + 1\<close> is \<open>(Rij + Rji) s'\<close>, component \<open>k + 1\<close> is \<open>(Rki + Rik) s'\<close> and \<open>w\<close> is
  \<open>(Rkj - Rjk) s'\<close>, with \<open>s' = 0.5 / s\<close>.
\<close>

theorem dcm_to_quaternion_f32_branches:
  assumes sep: "separate dcm quaternion"
  shows "\<exists>\<sigma>'. mavlink_dcm_to_quaternion_f32 dcm quaternion \<sigma> = Some \<sigma>' \<and>
    (let R = dcm_at \<sigma> dcm; Q = quaternion_at \<sigma>' quaternion;
         tr = fl32 (fl32 (R 0 0 + R 1 1) + R 2 2) in
       (0 < tr \<longrightarrow>
          Q 0 = sqrt (tr + 1) / 2
          \<and> Q 1 = (R 2 1 - R 1 2) * (0.5 / sqrt (tr + 1))
          \<and> Q 2 = (R 0 2 - R 2 0) * (0.5 / sqrt (tr + 1))
          \<and> Q 3 = (R 1 0 - R 0 1) * (0.5 / sqrt (tr + 1)))
       \<and> (tr \<le> 0 \<longrightarrow>
            (\<exists>i\<in>{0, 1, 2}.
               (\<forall>m\<in>{0, 1, 2}. R m m \<le> R i i)
               \<and> (\<forall>m\<in>{0, 1, 2}. m < i \<longrightarrow> R m m < R i i)
               \<and> (let j = (i + 1) mod 3; k = (i + 2) mod 3;
                       s = sqrt (R i i - R j j - R k k + 1)
                   in Q (i + 1) = s / 2
                      \<and> Q (j + 1) = (R i j + R j i) * (0.5 / s)
                      \<and> Q (k + 1) = (R k i + R i k) * (0.5 / s)
                      \<and> Q 0 = (R k j - R j k) * (0.5 / s)))))"
proof (cases "0 < fl32 (fl32 (dcm_at \<sigma> dcm 0 0 + dcm_at \<sigma> dcm 1 1) + dcm_at \<sigma> dcm 2 2)")
  case True
  show ?thesis
    unfolding run_pos_f32[OF sep True] using True
    by (simp add: quaternion_at_def Let_def)
next
  case False
  obtain i where i: "max_diag_loop \<sigma> dcm 1 0 = Some i" "i = 0 \<or> i = 1 \<or> i = 2"
    and mx: "\<forall>m\<in>{0, 1, 2}. dcm_at \<sigma> dcm m m \<le> dcm_at \<sigma> dcm i i"
    and lo: "\<forall>m\<in>{0, 1, 2}. m < i \<longrightarrow> dcm_at \<sigma> dcm m m < dcm_at \<sigma> dcm i i"
    by (rule max_diag_loop_cases)
  define \<sigma>' where "\<sigma>' = the (mavlink_dcm_to_quaternion_f32 dcm quaternion \<sigma>)"
  have r: "mavlink_dcm_to_quaternion_f32 dcm quaternion \<sigma> = Some \<sigma>'"
    unfolding \<sigma>'_def run_nonpos_f32[OF sep False i] by simp
  have q: "let j = (i + 1) mod 3; k = (i + 2) mod 3;
               s = sqrt (dcm_at \<sigma> dcm i i - dcm_at \<sigma> dcm j j - dcm_at \<sigma> dcm k k + 1)
           in quaternion_at \<sigma>' quaternion (i + 1) = s / 2
              \<and> quaternion_at \<sigma>' quaternion (j + 1)
                  = (dcm_at \<sigma> dcm i j + dcm_at \<sigma> dcm j i) * (0.5 / s)
              \<and> quaternion_at \<sigma>' quaternion (k + 1)
                  = (dcm_at \<sigma> dcm k i + dcm_at \<sigma> dcm i k) * (0.5 / s)
              \<and> quaternion_at \<sigma>' quaternion 0
                  = (dcm_at \<sigma> dcm k j - dcm_at \<sigma> dcm j k) * (0.5 / s)"
    unfolding \<sigma>'_def run_nonpos_f32[OF sep False i] using i(2)
    by (elim disjE) (simp_all add: quaternion_at_def Let_def)
  have m: "i \<in> {0, 1, 2}" using i(2) by auto
  from r q[unfolded Let_def] mx lo m False show ?thesis
    unfolding Let_def by blast
qed

text \<open>
  The identity matrix (trace 3) gives \<open>(1, 0, 0, 0)\<close>; the half turn about the second
  axis (diagonal \<open>-1, 1, -1\<close>, trace \<open>-1\<close>, largest entry at index 1) gives \<open>(0, 0, 1, 0)\<close>.
  The matrix is at address 0, the quaternion at address 9.
\<close>

theorem dcm_to_quaternion_f32_branches_witness:
  "separate 0 9
   \<and> (\<exists>\<sigma>'. mavlink_dcm_to_quaternion_f32 0 9
              \<lparr>heap = (\<lambda>a. if a = 0 \<or> a = 4 \<or> a = 8 then 1 else 0), stores = []\<rparr> = Some \<sigma>'
           \<and> map (quaternion_at \<sigma>' 9) [0, 1, 2, 3] = [1, 0, 0, 0])
   \<and> (\<exists>\<sigma>'. mavlink_dcm_to_quaternion_f32 0 9
              \<lparr>heap = (\<lambda>a. if a = 4 then 1 else if a = 0 \<or> a = 8 then - 1 else 0),
                 stores = []\<rparr> = Some \<sigma>'
           \<and> map (quaternion_at \<sigma>' 9) [0, 1, 2, 3] = [0, 0, 1, 0])"
proof -
  have s: "separate 0 9" by (simp add: separate_def)
  have a: "\<exists>\<sigma>'. mavlink_dcm_to_quaternion_f32 0 9
              \<lparr>heap = (\<lambda>a. if a = 0 \<or> a = 4 \<or> a = 8 then 1 else 0), stores = []\<rparr> = Some \<sigma>'
           \<and> map (quaternion_at \<sigma>' 9) [0, 1, 2, 3] = [1, 0, 0, 0]"
    using dcm_to_quaternion_f32_branches[OF s,
        of "\<lparr>heap = (\<lambda>a. if a = 0 \<or> a = 4 \<or> a = 8 then 1 else 0), stores = []\<rparr>"]
    by (auto simp add: dcm_at_def Let_def)
  have b: "\<exists>\<sigma>'. mavlink_dcm_to_quaternion_f32 0 9
              \<lparr>heap = (\<lambda>a. if a = 4 then 1 else if a = 0 \<or> a = 8 then - 1 else 0),
                 stores = []\<rparr> = Some \<sigma>'
           \<and> map (quaternion_at \<sigma>' 9) [0, 1, 2, 3] = [0, 0, 1, 0]"
    using dcm_to_quaternion_f32_branches[OF s,
        of "\<lparr>heap = (\<lambda>a. if a = 4 then 1 else if a = 0 \<or> a = 8 then - 1 else 0), stores = []\<rparr>"]
    by (auto simp add: dcm_at_def Let_def)
  from s a b show ?thesis by blast
qed

text \<open>
  With the exact sum \<open>R00 + R11 + R22\<close> for \<open>tr\<close> the statement fails. The matrix with
  diagonal \<open>1, 2^-25, -1\<close> and zeros elsewhere (all binary32 numbers) has the positive
  trace \<open>2^-25\<close>, but \<open>1 + 2^-25\<close> rounds to \<open>1\<close> and the sum computed is \<open>0\<close>: the call takes
  the arm for a trace that is not positive and leaves \<open>(0, sqrt (3 - 2^-25) / 2, 0, 0)\<close>,
  where \<open>w = sqrt (tr + 1) / 2\<close> of the exact trace is not \<open>0\<close>.
\<close>

theorem dcm_to_quaternion_exact_trace_counterexample:
  "0 < dcm_at \<lparr>heap = (\<lambda>a. if a = 0 then 1 else if a = 4 then 1 / 2 ^ 25 else if a = 8 then - 1 else 0), stores = []\<rparr> 0 0 0
     + dcm_at \<lparr>heap = (\<lambda>a. if a = 0 then 1 else if a = 4 then 1 / 2 ^ 25 else if a = 8 then - 1 else 0), stores = []\<rparr> 0 1 1
     + dcm_at \<lparr>heap = (\<lambda>a. if a = 0 then 1 else if a = 4 then 1 / 2 ^ 25 else if a = 8 then - 1 else 0), stores = []\<rparr> 0 2 2
   \<and> map_option (\<lambda>\<sigma>'. map (quaternion_at \<sigma>' 9) [0, 1, 2, 3])
        (mavlink_dcm_to_quaternion_f32 0 9
           \<lparr>heap = (\<lambda>a. if a = 0 then 1 else if a = 4 then 1 / 2 ^ 25 else if a = 8 then - 1 else 0), stores = []\<rparr>)
       = Some [0, sqrt (3 - 1 / 2 ^ 25) / 2, 0, 0]
   \<and> sqrt (dcm_at \<lparr>heap = (\<lambda>a. if a = 0 then 1 else if a = 4 then 1 / 2 ^ 25 else if a = 8 then - 1 else 0), stores = []\<rparr> 0 0 0
             + dcm_at \<lparr>heap = (\<lambda>a. if a = 0 then 1 else if a = 4 then 1 / 2 ^ 25 else if a = 8 then - 1 else 0), stores = []\<rparr> 0 1 1
             + dcm_at \<lparr>heap = (\<lambda>a. if a = 0 then 1 else if a = 4 then 1 / 2 ^ 25 else if a = 8 then - 1 else 0), stores = []\<rparr> 0 2 2
             + 1) / 2 \<noteq> 0"
proof -
  have h: "fl32 (33554433 / 33554432) = 1"
    by (simp add: fl32_unit_binade round_even_def Let_def)
  show ?thesis
    by (simp add: mavlink_dcm_to_quaternion_f32_def max_diag_loop_unfold rd_dcm_def
        wr_quaternion_def dcm_at_def quaternion_at_def Let_def h)
qed

subsection \<open>Pitch and the regular arm\<close>

text \<open>
  Claim C3. \<^verbatim>\<open>mavlink_dcm_to_euler\<close> returns pitch \<open>asin(-dcm[2][0])\<close>, which lies in
  \<open>[-\<pi>/2, \<pi>/2]\<close> whenever \<open>|dcm[2][0]| \<le> 1\<close>; and when the gimbal-lock condition does not
  hold it returns roll \<open>atan2f dcm[2][1] dcm[2][2]\<close> and yaw \<open>atan2f dcm[1][0] dcm[0][0]\<close>.
\<close>

theorem dcm_to_euler_pitch_regular:
  "(case mavlink_dcm_to_euler dcm of (roll, pitch, yaw) \<Rightarrow>
      pitch = arcsin (- (dcm ! 2 ! 0))
      \<and> (\<bar>dcm ! 2 ! 0\<bar> \<le> 1 \<longrightarrow> - (pi / 2) \<le> pitch \<and> pitch \<le> pi / 2)
      \<and> (\<not> (\<bar>pitch - pi / 2\<bar> < 0.001 \<or> \<bar>pitch + pi / 2\<bar> < 0.001) \<longrightarrow>
            roll = atan2f (dcm ! 2 ! 1) (dcm ! 2 ! 2)
            \<and> yaw = atan2f (dcm ! 1 ! 0) (dcm ! 0 ! 0)))"
proof -
  have p: "fst (snd (mavlink_dcm_to_euler dcm)) = arcsin (- (dcm ! 2 ! 0))"
    by (simp add: mavlink_dcm_to_euler_def Let_def)
  have b: "- (pi / 2) \<le> arcsin (- (dcm ! 2 ! 0)) \<and> arcsin (- (dcm ! 2 ! 0)) \<le> pi / 2"
    if "\<bar>dcm ! 2 ! 0\<bar> \<le> 1"
    using that by (intro arcsin_bounded) auto
  have r: "fst (mavlink_dcm_to_euler dcm) = atan2f (dcm ! 2 ! 1) (dcm ! 2 ! 2)
           \<and> snd (snd (mavlink_dcm_to_euler dcm)) = atan2f (dcm ! 1 ! 0) (dcm ! 0 ! 0)"
    if "\<not> (\<bar>arcsin (- (dcm ! 2 ! 0)) - pi / 2\<bar> < 0.001
            \<or> \<bar>arcsin (- (dcm ! 2 ! 0)) + pi / 2\<bar> < 0.001)"
    using that by (simp add: euler_regular_arm)
  from p b r show ?thesis by (auto split: prod.splits)
qed

text \<open>The quarter turn about the third axis: pitch 0, regular arm.\<close>

theorem dcm_to_euler_pitch_regular_witness:
  "\<bar>[[0, - 1, 0], [1, 0, 0], [0, 0, 1]] ! 2 ! 0\<bar> \<le> (1::real)
   \<and> mavlink_dcm_to_euler [[0, - 1, 0], [1, 0, 0], [0, 0, 1]] = (atan2f 0 1, 0, atan2f 1 0)"
proof -
  have h: "\<bar>[[0, - 1, 0], [1, 0, 0], [0, 0, 1]] ! 2 ! 0\<bar> \<le> (1::real)" by simp
  have g: "\<not> (\<bar>0 - pi / 2\<bar> < (0.001::real) \<or> \<bar>0 + pi / 2\<bar> < (0.001::real))"
    using pi_ge_two by simp
  show ?thesis
    using h g dcm_to_euler_pitch_regular[of "[[0, - 1, 0], [1, 0, 0], [0, 0, 1]]"]
    by (auto split: prod.splits)
qed

subsection \<open>Quaternion to rotation matrix\<close>

text \<open>
  Claim C4. For every quaternion \<open>(w, x, y, z)\<close>, \<^verbatim>\<open>mavlink_quaternion_to_dcm\<close> returns the
  matrix with the nine entries of the standard expansion: the diagonal from the squares,
  the off-diagonal entries twice the sum or difference of two cross terms.
\<close>

theorem quaternion_to_dcm_entries:
  "mavlink_quaternion_to_dcm [w, x, y, z] =
     [[w\<^sup>2 + x\<^sup>2 - y\<^sup>2 - z\<^sup>2, 2 * (x * y - w * z), 2 * (w * y + x * z)],
      [2 * (x * y + w * z), w\<^sup>2 - x\<^sup>2 + y\<^sup>2 - z\<^sup>2, 2 * (y * z - w * x)],
      [2 * (x * z - w * y), 2 * (w * x + y * z), w\<^sup>2 - x\<^sup>2 - y\<^sup>2 + z\<^sup>2]]"
  by (simp add: mavlink_quaternion_to_dcm_def Let_def power2_eq_square)

subsection \<open>Euler angles to quaternion\<close>

text \<open>
  Claim C5. For all Euler angles, \<^verbatim>\<open>mavlink_euler_to_quaternion\<close> returns the four
  half-angle products, in the order \<open>w, x, y, z\<close>.
\<close>

theorem euler_to_quaternion_half_angles:
  "mavlink_euler_to_quaternion roll pitch yaw =
     [cos (roll / 2) * cos (pitch / 2) * cos (yaw / 2)
        + sin (roll / 2) * sin (pitch / 2) * sin (yaw / 2),
      sin (roll / 2) * cos (pitch / 2) * cos (yaw / 2)
        - cos (roll / 2) * sin (pitch / 2) * sin (yaw / 2),
      cos (roll / 2) * sin (pitch / 2) * cos (yaw / 2)
        + sin (roll / 2) * cos (pitch / 2) * sin (yaw / 2),
      cos (roll / 2) * cos (pitch / 2) * sin (yaw / 2)
        - sin (roll / 2) * sin (pitch / 2) * cos (yaw / 2)]"
  by (simp add: mavlink_euler_to_quaternion_def Let_def)

text \<open>
  Claim C6. For all Euler angles, with no restriction of their range, the quaternion
  returned by \<^verbatim>\<open>mavlink_euler_to_quaternion\<close> has norm 1: its four components are the
  products above, not rescaled, and their squares add up to 1 (in exact arithmetic).
\<close>

theorem euler_to_quaternion_unit_norm:
  "(let q = mavlink_euler_to_quaternion roll pitch yaw
    in length q = 4 \<and> (q ! 0)\<^sup>2 + (q ! 1)\<^sup>2 + (q ! 2)\<^sup>2 + (q ! 3)\<^sup>2 = 1)"
proof -
  define cr sr cp sp cy sy where
    "cr = cos (roll / 2)" and "sr = sin (roll / 2)" and
    "cp = cos (pitch / 2)" and "sp = sin (pitch / 2)" and
    "cy = cos (yaw / 2)" and "sy = sin (yaw / 2)"
  have r: "sr\<^sup>2 + cr\<^sup>2 = 1" and p: "sp\<^sup>2 + cp\<^sup>2 = 1" and y: "sy\<^sup>2 + cy\<^sup>2 = 1"
    by (simp_all add: cr_def sr_def cp_def sp_def cy_def sy_def)
  have "(cr * cp * cy + sr * sp * sy)\<^sup>2 + (sr * cp * cy - cr * sp * sy)\<^sup>2
        + (cr * sp * cy + sr * cp * sy)\<^sup>2 + (cr * cp * sy - sr * sp * cy)\<^sup>2
        = (sr\<^sup>2 + cr\<^sup>2) * (sp\<^sup>2 + cp\<^sup>2) * (sy\<^sup>2 + cy\<^sup>2)"
    by (simp add: power2_eq_square algebra_simps)
  also have "\<dots> = 1" by (simp only: r p y mult_1)
  finally show ?thesis
    by (simp add: mavlink_euler_to_quaternion_def Let_def
        cr_def sr_def cp_def sp_def cy_def sy_def)
qed

subsection \<open>Round trips\<close>



text \<open>
  Claim C8. The identity elements map to each other exactly: the Euler angles
  \<open>(0, 0, 0)\<close> give the quaternion \<open>(1, 0, 0, 0)\<close>, that quaternion gives the identity
  matrix, and the identity matrix gives the Euler angles \<open>(0, 0, 0)\<close>.
\<close>

theorem identity_round_trip:
  "mavlink_euler_to_quaternion 0 0 0 = [1, 0, 0, 0]
   \<and> mavlink_quaternion_to_dcm [1, 0, 0, 0] = [[1, 0, 0], [0, 1, 0], [0, 0, 1]]
   \<and> mavlink_dcm_to_euler [[1, 0, 0], [0, 1, 0], [0, 0, 1]] = (0, 0, 0)"
proof -
  have a: "mavlink_euler_to_quaternion 0 0 0 = [1, 0, 0, 0]"
    by (simp add: mavlink_euler_to_quaternion_def)
  have b: "mavlink_quaternion_to_dcm [1, 0, 0, 0] = [[1, 0, 0], [0, 1, 0], [0, 0, 1]]"
    by (simp add: mavlink_quaternion_to_dcm_def)
  have "\<not> \<bar>0 - M_PI_2\<bar> < 0.001" "\<not> \<bar>0 + M_PI_2\<bar> < 0.001"
    using pi_ge_two by (simp_all add: M_PI_2_def)
  then have c: "mavlink_dcm_to_euler [[1, 0, 0], [0, 1, 0], [0, 0, 1]] = (0, 0, 0)"
    by (simp add: mavlink_dcm_to_euler_def atan2f_0_pos)
  from a b c show ?thesis by simp
qed

subsection \<open>Memory effects of \<^verbatim>\<open>mavlink_dcm_to_quaternion\<close>\<close>

text \<open>
  Claim C9. \<^verbatim>\<open>mavlink_dcm_to_quaternion\<close> does not modify its input matrix, although it
  receives it through a pointer that is not \<^verbatim>\<open>const\<close>: called with separate arrays, on any
  store, it returns, the nine cells of the matrix hold afterwards what they held before,
  every cell other than the four of the quaternion is unchanged, and the stores it
  performs go to exactly those four cells.
\<close>

theorem dcm_to_quaternion_frame:
  assumes sep: "separate dcm quaternion"
  shows "\<exists>\<sigma>' ws. mavlink_dcm_to_quaternion dcm quaternion \<sigma> = Some \<sigma>'
     \<and> (\<forall>i\<in>{0, 1, 2}. \<forall>j\<in>{0, 1, 2}. dcm_at \<sigma>' dcm i j = dcm_at \<sigma> dcm i j)
     \<and> (\<forall>a. a \<notin> {quaternion, quaternion + 1, quaternion + 2, quaternion + 3}
             \<longrightarrow> heap \<sigma>' a = heap \<sigma> a)
     \<and> stores \<sigma>' = stores \<sigma> @ ws
     \<and> set ws = {quaternion, quaternion + 1, quaternion + 2, quaternion + 3}"
proof -
  obtain \<sigma>' ws where r: "mavlink_dcm_to_quaternion dcm quaternion \<sigma> = Some \<sigma>'"
    and w: "stores \<sigma>' = stores \<sigma> @ ws"
      "set ws = {quaternion, quaternion + 1, quaternion + 2, quaternion + 3}"
    and f: "\<forall>a. a \<notin> {quaternion, quaternion + 1, quaternion + 2, quaternion + 3}
                \<longrightarrow> heap \<sigma>' a = heap \<sigma> a"
    using run_frame[of dcm quaternion \<sigma>] by blast
  have "dcm_at \<sigma>' dcm i j = dcm_at \<sigma> dcm i j" if "i \<in> {0, 1, 2}" "j \<in> {0, 1, 2}" for i j
  proof -
    have "dcm + 3 * i + j \<notin> {quaternion, quaternion + 1, quaternion + 2, quaternion + 3}"
      using sep that unfolding separate_def by auto
    with f show ?thesis by (simp add: dcm_at_def)
  qed
  with r w f show ?thesis by blast
qed

text \<open>
  The half turn about the second axis at address 0, the quaternion at address 9: the
  nine matrix cells and cell 13 are as before, the stores went to cells 9 to 12.
\<close>

theorem dcm_to_quaternion_frame_witness:
  "separate 0 9
   \<and> (\<exists>\<sigma>'. mavlink_dcm_to_quaternion 0 9
              \<lparr>heap = (\<lambda>a. if a = 4 then 1 else if a = 0 \<or> a = 8 then - 1 else 0),
                 stores = []\<rparr> = Some \<sigma>'
           \<and> map (\<lambda>(i, j). dcm_at \<sigma>' 0 i j)
                 [(0, 0), (0, 1), (0, 2), (1, 0), (1, 1), (1, 2), (2, 0), (2, 1), (2, 2)]
               = [- 1, 0, 0, 0, 1, 0, 0, 0, - 1]
           \<and> heap \<sigma>' 13 = 0
           \<and> set (stores \<sigma>') = {9, 10, 11, 12})"
proof -
  have s: "separate 0 9" by (simp add: separate_def)
  from s dcm_to_quaternion_frame[OF s,
      of "\<lparr>heap = (\<lambda>a. if a = 4 then 1 else if a = 0 \<or> a = 8 then - 1 else 0), stores = []\<rparr>"]
  show ?thesis by (auto simp add: dcm_at_def)
qed



end
